theory Spec2Isabelle
  imports Main "HOL-Library.Sublist"
begin

section \<open>Exceptions\<close>

text \<open>
  The scripts are Python. An exception that leaves a function is a value \<open>Inl e\<close> of
  the result type \<open>error + 'a\<close>. \<open>ValueError\<close> is the one exception the repository
  raises itself (in \<open>load_documents\<close>); \<open>EOFError\<close> is what \<open>input()\<close> raises at the
  end of the input, \<open>AttributeError\<close> and \<open>TypeError\<close> are what Python raises on
  \<open>None.lower()\<close> and \<open>None[:180]\<close>; \<open>External\<close> stands for whatever exception a
  third-party library or remote service raises (a loader that cannot read a file, an
  HTTP request that times out, a failed LLM call): its class is not fixed by the
  repository, only that it propagates.
\<close>

datatype error =
    ValueError string
  | EOFError
  | AttributeError
  | TypeError
  | External string

section \<open>langchainRAG.py: document loading\<close>

text \<open>
  \<open>DirectoryLoader(path, glob, loader_cls).load()\<close> and \<open>WebBaseLoader(url).load()\<close>
  are library calls on the file system and the network. They are parameters of the
  model: each either raises or returns documents. \<open>path_exists\<close> is
  \<open>os.path.exists\<close>. The type of documents is left open (\<open>'doc\<close>): the loader only
  collects them.
\<close>

datatype loader_cls = PyPDFLoader | TextLoader

record 'doc sources =
  path_exists :: "string \<Rightarrow> bool"
  directory_load :: "string \<Rightarrow> string \<Rightarrow> loader_cls \<Rightarrow> error + 'doc list"
  web_load :: "string \<Rightarrow> error + 'doc list"

text \<open>
  The loop \<open>for url in urls: docs.extend(WebBaseLoader(url).load())\<close>, with the list
  \<open>docs\<close> gathered so far as accumulator. Nothing catches an exception of \<open>load()\<close>.
\<close>

fun load_urls :: "'doc sources \<Rightarrow> 'doc list \<Rightarrow> string list \<Rightarrow> error + 'doc list" where
  "load_urls src docs [] = Inr docs"
| "load_urls src docs (url # urls) =
     (case web_load src url of
        Inl e \<Rightarrow> Inl e
      | Inr ds \<Rightarrow> load_urls src (docs @ ds) urls)"

text \<open>
  \<open>load_documents(path=None, urls=None)\<close>. Python's truth of \<open>path\<close>: not \<open>None\<close>
  and not the empty string; of \<open>urls\<close>: not \<open>None\<close> and not the empty list.
\<close>

definition path_valid :: "'doc sources \<Rightarrow> string option \<Rightarrow> bool" where
  "path_valid src path =
     (case path of None \<Rightarrow> False | Some p \<Rightarrow> p \<noteq> [] \<and> path_exists src p)"

text \<open>The branch for a valid path: all PDF files below it, then all text files.\<close>

definition load_directory :: "'doc sources \<Rightarrow> string \<Rightarrow> error + 'doc list" where
  "load_directory src p =
     (case directory_load src p ''**/*.pdf'' PyPDFLoader of
        Inl e \<Rightarrow> Inl e
      | Inr pdfs \<Rightarrow>
          (case directory_load src p ''**/*.txt'' TextLoader of
             Inl e \<Rightarrow> Inl e
           | Inr txts \<Rightarrow> Inr ([] @ pdfs @ txts)))"

definition load_documents ::
  "'doc sources \<Rightarrow> string option \<Rightarrow> string list option \<Rightarrow> error + 'doc list" where
  "load_documents src path urls =
     (if path_valid src path then load_directory src (the path)
      else
        (case urls of
           Some (u # us) \<Rightarrow> load_urls src [] (u # us)
         | _ \<Rightarrow> Inl (ValueError ''Provide either a valid local path or URLs list.'')))"

section \<open>langchainRAG.py: chunking and the vector store\<close>

text \<open>
  \<open>RecursiveCharacterTextSplitter\<close> is a class of the library
  \<open>langchain_text_splitters\<close>; the repository only chooses its parameters. The
  splitter is a parameter of the model: it gets the chunk size, the overlap and the
  separators, and turns documents into chunks.
\<close>

type_synonym ('doc, 'chunk) splitter =
  "nat \<Rightarrow> nat \<Rightarrow> string list \<Rightarrow> 'doc list \<Rightarrow> 'chunk list"

definition nl :: string where
  "nl = [CHR 0x0A]"

definition split_documents ::
  "('doc, 'chunk) splitter \<Rightarrow> 'doc list \<Rightarrow> nat \<Rightarrow> nat \<Rightarrow> 'chunk list" where
  "split_documents splitter documents chunk_size chunk_overlap =
     splitter chunk_size chunk_overlap
       [nl @ nl, nl, ''.'', ''!'', ''?'', '' '', []] documents"

text \<open>
  The vector store is a remote service (Chroma Cloud, Pinecone). Its state is a map
  from collection names to the entries stored under the name, in insertion order.
  \<open>from_documents\<close> embeds the chunks and adds each under a fresh random identifier,
  so adding a chunk that is already stored adds it again: the entries are a list.
  Every request to a remote service is also written to a log, so that a statement
  can say that no request was made. The model takes the service as reliable; only
  loading can fail here.
\<close>

datatype call =
    LoadEmbeddings string
  | ConnectClient
  | ListCollections
  | DeleteCollection string
  | CreateIndex string
  | FromDocuments string nat

record 'chunk service =
  collections :: "string \<rightharpoonup> 'chunk list"
  calls :: "call list"

definition logged :: "call \<Rightarrow> 'chunk service \<Rightarrow> 'chunk service" where
  "logged c w = w\<lparr>calls := calls w @ [c]\<rparr>"

definition delete_collection :: "string \<Rightarrow> 'chunk service \<Rightarrow> 'chunk service" where
  "delete_collection name w =
     logged (DeleteCollection name) (w\<lparr>collections := (collections w)(name := None)\<rparr>)"

definition create_index :: "string \<Rightarrow> 'chunk service \<Rightarrow> 'chunk service" where
  "create_index name w =
     logged (CreateIndex name) (w\<lparr>collections := (collections w)(name \<mapsto> [])\<rparr>)"

definition stored :: "'chunk service \<Rightarrow> string \<Rightarrow> 'chunk list" where
  "stored w name = (case collections w name of None \<Rightarrow> [] | Some es \<Rightarrow> es)"

definition from_documents ::
  "'chunk list \<Rightarrow> string \<Rightarrow> 'chunk service \<Rightarrow> 'chunk service" where
  "from_documents chunks name w =
     logged (FromDocuments name (length chunks))
       (w\<lparr>collections := (collections w)(name \<mapsto> stored w name @ chunks)\<rparr>)"

text \<open>
  \<open>build_vector_store(path)\<close>: load, split, create the embedding model and the
  client, drop the collection \<open>Langchain_store\<close> if the service lists it, then store
  the chunks. The result is the pair of what the function returns (the name of the
  collection the returned store is bound to, or the exception) and the service after it.
\<close>

definition collection_name :: string where
  "collection_name = ''Langchain_store''"

definition build_vector_store ::
  "'doc sources \<Rightarrow> ('doc, 'chunk) splitter \<Rightarrow> string \<Rightarrow> 'chunk service
     \<Rightarrow> (error + string) \<times> 'chunk service" where
  "build_vector_store src splitter path w =
     (case load_documents src (Some path) None of
        Inl e \<Rightarrow> (Inl e, w)
      | Inr docs \<Rightarrow>
          let chunks = split_documents splitter docs 1000 200;
              w1 = logged (LoadEmbeddings ''sentence-transformers/all-MiniLM-L6-v2'') w;
              w2 = logged ConnectClient w1;
              w3 = logged ListCollections w2;
              w4 = (if collections w3 collection_name \<noteq> None
                    then delete_collection collection_name w3 else w3);
              w5 = from_documents chunks collection_name w4
          in (Inr collection_name, w5))"

section \<open>langchain(pinecone).py: the index build\<close>

text \<open>
  The script's lines 14 to 55, for the index name read from the environment: load
  the text files below \<open>docs/\<close>, split them (chunk size 500, overlap 100, the
  splitter's default separators), create the index if the service does not list it,
  and store the chunks. The index is never deleted.
\<close>

definition pinecone_build ::
  "'doc sources \<Rightarrow> ('doc, 'chunk) splitter \<Rightarrow> string \<Rightarrow> 'chunk service
     \<Rightarrow> (error + string) \<times> 'chunk service" where
  "pinecone_build src splitter index_name w =
     (case directory_load src ''docs/'' ''**/*.txt'' TextLoader of
        Inl e \<Rightarrow> (Inl e, w)
      | Inr docs \<Rightarrow>
          let w1 = logged (LoadEmbeddings ''sentence-transformers/all-mpnet-base-v2'') w;
              chunks = splitter 500 100 [nl @ nl, nl, '' '', []] docs;
              w2 = logged ConnectClient w1;
              w3 = logged ListCollections w2;
              w4 = (if collections w3 index_name = None
                    then create_index index_name w3 else w3);
              w5 = from_documents chunks index_name w4
          in (Inr index_name, w5))"

section \<open>Strings as Python handles them\<close>

text \<open>
  A text is the list of its characters. \<open>py_in s t\<close> is the substring test
  \<open>s in t\<close>, \<open>py_join\<close> is \<open>sep.join(xs)\<close>.

  \<open>str.lower()\<close> follows the Unicode tables of the interpreter, which are not part
  of the repository: where a text of any script is lower-cased (the titles and the
  query of \<open>find_movie_in_city\<close>), the function is a parameter \<open>lower\<close> of the
  model. \<open>ascii_lower\<close> lower-cases the letters A to Z and leaves every other
  character as it is. The model uses it in one place, the test of the session loop whether
  the lower-cased line is the word \<open>exit\<close> or \<open>quit\<close>: no character other than
  A to Z is lower-cased to a letter of these two words, so that on this test it
  decides as \<open>str.lower()\<close> does.
\<close>

definition ascii_lower_char :: "char \<Rightarrow> char" where
  "ascii_lower_char c =
     (case map_of (zip ''ABCDEFGHIJKLMNOPQRSTUVWXYZ'' ''abcdefghijklmnopqrstuvwxyz'') c of
        None \<Rightarrow> c
      | Some l \<Rightarrow> l)"

definition ascii_lower :: "string \<Rightarrow> string" where
  "ascii_lower s = map ascii_lower_char s"

fun py_in :: "string \<Rightarrow> string \<Rightarrow> bool" where
  "py_in s [] = (s = [])"
| "py_in s (c # cs) = (prefix s (c # cs) \<or> py_in s cs)"

fun py_join :: "string \<Rightarrow> string list \<Rightarrow> string" where
  "py_join sep [] = []"
| "py_join sep [x] = x"
| "py_join sep (x # y # ys) = x @ sep @ py_join sep (y # ys)"

definition dq :: string where
  "dq = [CHR 0x22]"

definition sq :: string where
  "sq = [CHR 0x27]"

section \<open>langchainRAG.py: the chain and the interactive session\<close>

text \<open>
  The chat history is a list of messages, appended to by \<open>add_message\<close>. The
  retriever and the LLM are remote services: each call either raises or returns, and
  two calls with the same argument need not agree, so both are indexed by the number
  of the turn. \<open>str_docs\<close> is Python's \<open>str\<close> of the list of retrieved documents
  and \<open>py_repr\<close> its \<open>repr\<close> of a string, as the template's formatter applies them.
\<close>

datatype message = HumanMessage string | AIMessage string

record 'docs chain_env =
  retriever :: "nat \<Rightarrow> string \<Rightarrow> error + 'docs"
  str_docs :: "'docs \<Rightarrow> string"
  py_repr :: "string \<Rightarrow> string"
  llm :: "nat \<Rightarrow> string \<Rightarrow> error + string"

text \<open>
  The first step of the chain maps the input \<open>{"question": query}\<close> to the three
  values below: the retrieved documents, the input itself (\<open>RunnablePassthrough\<close>
  hands on the whole dictionary, not the string in it), and the history rendered as
  lines \<open>Human: ...\<close> and \<open>AI: ...\<close>.
\<close>

record prompt_input =
  v_context :: string
  v_question :: string
  v_chat_history :: string

definition render_message :: "message \<Rightarrow> string" where
  "render_message m =
     (case m of HumanMessage c \<Rightarrow> ''Human: '' @ c | AIMessage c \<Rightarrow> ''AI: '' @ c)"

definition chain_inputs ::
  "'docs chain_env \<Rightarrow> nat \<Rightarrow> message list \<Rightarrow> string \<Rightarrow> error + prompt_input" where
  "chain_inputs env n history query =
     (case retriever env n query of
        Inl e \<Rightarrow> Inl e
      | Inr docs \<Rightarrow>
          Inr \<lparr>v_context = str_docs env docs,
               v_question = ''{'' @ sq @ ''question'' @ sq @ '': '' @ py_repr env query @ ''}'',
               v_chat_history = py_join nl (map render_message history)\<rparr>)"

text \<open>
  The \<open>PromptTemplate\<close>: its text has the two placeholders \<open>{context}\<close> and
  \<open>{question}\<close>, and \<open>input_variables\<close> lists these two. The formatter fills them and
  ignores every other key it is given.
\<close>

definition prompt_format :: "prompt_input \<Rightarrow> string" where
  "prompt_format v =
     ''You are an expert assistant. Use ONLY the following context to answer.'' @ nl @
     ''If the answer is not in the context, say: '' @
     dq @ ''I could not find the answer in the document.'' @ dq @ nl @ nl @
     ''Context:'' @ nl @ v_context v @ nl @ nl @
     ''Question:'' @ nl @ v_question v @ nl @ nl @
     ''Answer:''"

definition rag_prompt ::
  "'docs chain_env \<Rightarrow> nat \<Rightarrow> message list \<Rightarrow> string \<Rightarrow> error + string" where
  "rag_prompt env n history query =
     (case chain_inputs env n history query of
        Inl e \<Rightarrow> Inl e
      | Inr v \<Rightarrow> Inr (prompt_format v))"

text \<open>\<open>rag_chain.invoke({"question": query})\<close>: the prompt, the LLM, its text.\<close>

definition rag_chain_invoke ::
  "'docs chain_env \<Rightarrow> nat \<Rightarrow> message list \<Rightarrow> string \<Rightarrow> error + string" where
  "rag_chain_invoke env n history query =
     (case rag_prompt env n history query of
        Inl e \<Rightarrow> Inl e
      | Inr p \<Rightarrow> llm env n p)"

text \<open>
  The loop of \<open>__main__\<close>. The lines the user types are a list; \<open>input()\<close> at its end
  raises \<open>EOFError\<close>. The loop has no \<open>try\<close>: an exception of \<open>rag_chain.invoke\<close>
  leaves the loop and ends the program, with the lines not yet read left unread. The
  outcome records how the loop ended and the chat history at that moment.
\<close>

datatype outcome = Exited "message list" | Raised error "message list"

definition is_exit :: "string \<Rightarrow> bool" where
  "is_exit query = (ascii_lower query = ''exit'' \<or> ascii_lower query = ''quit'')"

fun main_loop ::
  "'docs chain_env \<Rightarrow> nat \<Rightarrow> message list \<Rightarrow> string list \<Rightarrow> outcome" where
  "main_loop env n history [] = Raised EOFError history"
| "main_loop env n history (query # rest) =
     (if is_exit query then Exited history
      else
        (case rag_chain_invoke env n history query of
           Inl e \<Rightarrow> Raised e history
         | Inr result \<Rightarrow>
             main_loop env (Suc n)
               (history @ [HumanMessage query] @ [AIMessage result]) rest))"

section \<open>Movie_Scrapper_bot: the TMDb fetch\<close>

text \<open>
  \<open>webScrapper_chatbot.py\<close> and \<open>ReAct_Webscrapper_Streamlit.py\<close> hold the same
  \<open>get_now_playing_tmdb\<close>, \<open>get_now_playing\<close> and \<open>find_movie_in_city\<close>; one model
  serves both.

  A JSON value, as \<open>json.dumps\<close> receives it. \<open>json.dumps(., indent=2)\<close> itself is
  the standard library's and a parameter \<open>dumps\<close> of the tools.
\<close>

datatype json_value =
    JNull
  | JInt int
  | JString string
  | JArray "json_value list"
  | JObject "(string \<times> json_value) list"

text \<open>
  An item of TMDb's \<open>results\<close>, read with \<open>m.get(key)\<close>: a key that is missing (or
  null) reads as \<open>None\<close>. TMDb sends an integer id and strings for the rest.
\<close>

record tmdb_item =
  item_id :: "int option"
  item_title :: "string option"
  item_release_date :: "string option"
  item_original_language :: "string option"
  item_overview :: "string option"
  item_poster_path :: "string option"

text \<open>The dictionary \<open>get_now_playing_tmdb\<close> builds for each item.\<close>

record movie =
  movie_id :: "int option"
  title :: "string option"
  release_date :: "string option"
  language :: "string option"
  overview :: "string option"
  poster :: "string option"

definition movie_of :: "tmdb_item \<Rightarrow> movie" where
  "movie_of m =
     \<lparr>movie_id = item_id m,
      title = item_title m,
      release_date = item_release_date m,
      language = item_original_language m,
      overview = item_overview m,
      poster = (case item_poster_path m of
                  None \<Rightarrow> None
                | Some p \<Rightarrow> if p \<noteq> [] then Some (''https://image.tmdb.org/t/p/w500'' @ p)
                            else None)\<rparr>"

text \<open>
  A page of TMDb's answer: \<open>data.get("results", [])\<close> and
  \<open>data.get("total_pages", 1)\<close> read the two keys, each of which may be missing. A
  response has its status code and its body, which \<open>r.json()\<close> decodes or fails on.
  \<open>requests.get\<close> (for a region and a page number) returns a response or raises.
\<close>

record tmdb_page =
  results :: "tmdb_item list option"
  total_pages :: "int option"

record response =
  status_code :: int
  json :: "error + tmdb_page"

type_synonym requests_get = "string \<Rightarrow> nat \<Rightarrow> error + response"

text \<open>
  The loop \<open>for page in range(1, 3)\<close> of \<open>get_now_playing_tmdb\<close>, over the pages
  still to fetch and with the list \<open>results\<close> gathered so far. A status other than
  200 is a \<open>break\<close>, and so is reaching the last page.
\<close>

fun fetch_pages ::
  "requests_get \<Rightarrow> string \<Rightarrow> movie list \<Rightarrow> nat list \<Rightarrow> error + movie list" where
  "fetch_pages get region gathered [] = Inr gathered"
| "fetch_pages get region gathered (page # pages) =
     (case get region page of
        Inl e \<Rightarrow> Inl e
      | Inr r \<Rightarrow>
          if status_code r \<noteq> 200 then Inr gathered
          else
            (case json r of
               Inl e \<Rightarrow> Inl e
             | Inr data \<Rightarrow>
                 let gathered' =
                       gathered @ map movie_of (case results data of None \<Rightarrow> [] | Some ms \<Rightarrow> ms)
                 in if int page \<ge> (case total_pages data of None \<Rightarrow> 1 | Some t \<Rightarrow> t)
                    then Inr gathered'
                    else fetch_pages get region gathered' pages))"

definition get_now_playing_tmdb :: "requests_get \<Rightarrow> string \<Rightarrow> error + movie list" where
  "get_now_playing_tmdb get region = fetch_pages get region [] [1, 2]"

definition opt_json :: "('a \<Rightarrow> json_value) \<Rightarrow> 'a option \<Rightarrow> json_value" where
  "opt_json f v = (case v of None \<Rightarrow> JNull | Some x \<Rightarrow> f x)"

definition movie_json :: "movie \<Rightarrow> json_value" where
  "movie_json m =
     JObject [(''id'', opt_json JInt (movie_id m)),
              (''title'', opt_json JString (title m)),
              (''release_date'', opt_json JString (release_date m)),
              (''language'', opt_json JString (language m)),
              (''overview'', opt_json JString (overview m)),
              (''poster'', opt_json JString (poster m))]"

text \<open>The tool \<open>get_now_playing(region)\<close>: the first ten of the fetch, serialised.\<close>

definition get_now_playing ::
  "(json_value \<Rightarrow> string) \<Rightarrow> requests_get \<Rightarrow> string \<Rightarrow> error + string" where
  "get_now_playing dumps get region =
     (case get_now_playing_tmdb get region of
        Inl e \<Rightarrow> Inl e
      | Inr movies \<Rightarrow> Inr (dumps (JArray (map movie_json (take 10 movies)))))"

section \<open>Movie_Scrapper_bot: find_movie_in_city\<close>

text \<open>
  \<open>get_theaters_open(city)\<close> catches every exception and returns one of three
  dictionaries: an error, a message that no theater was found, or the city with its
  theaters. It is a parameter of \<open>find_movie_in_city\<close>, which reads the key
  \<open>theaters\<close> with \<open>.get("theaters", [])\<close> and, of each theater, its name. (The
  coordinates of a theater are floating-point numbers and are left out.)
\<close>

record theater =
  name :: string
  address :: string
  operator :: string
  brand :: "string option"

datatype theaters_data =
    TheatersError string
  | TheatersMessage string
  | Theaters string "theater list"

definition theaters_of :: "theaters_data \<Rightarrow> theater list" where
  "theaters_of theaters_data =
     (case theaters_data of Theaters city ts \<Rightarrow> ts | _ \<Rightarrow> [])"

text \<open>
  The search loop: the first movie, in list order, whose lower-cased title contains
  the lower-cased query. \<open>lower\<close> is \<open>str.lower()\<close>. A movie without a title stops
  the search with Python's \<open>AttributeError\<close> (\<open>None.lower()\<close>).
\<close>

fun first_match ::
  "(string \<Rightarrow> string) \<Rightarrow> string \<Rightarrow> movie list \<Rightarrow> error + movie option" where
  "first_match lower movie_title [] = Inr None"
| "first_match lower movie_title (m # ms) =
     (case title m of
        None \<Rightarrow> Inl AttributeError
      | Some t \<Rightarrow>
          if py_in (lower movie_title) (lower t) then Inr (Some m)
          else first_match lower movie_title ms)"

definition likely_theaters :: "theater list \<Rightarrow> json_value" where
  "likely_theaters theaters =
     (if theaters \<noteq> [] then JArray (map (\<lambda>t. JString (name t)) (take 8 theaters))
      else JString ''No data found'')"

text \<open>
  The tool returns what it returns or raises, together with the cities it looked
  theaters up for, in order. The lookup comes before the result is built, where a
  movie without an overview raises \<open>TypeError\<close> (\<open>None[:180]\<close>).
\<close>

definition find_movie_in_city ::
  "(json_value \<Rightarrow> string) \<Rightarrow> (string \<Rightarrow> string) \<Rightarrow> requests_get
     \<Rightarrow> (string \<Rightarrow> theaters_data)
     \<Rightarrow> string \<Rightarrow> string \<Rightarrow> (error + string) \<times> string list" where
  "find_movie_in_city dumps lower get get_theaters_open movie_title city =
     (case get_now_playing_tmdb get ''IN'' of
        Inl e \<Rightarrow> (Inl e, [])
      | Inr now_playing \<Rightarrow>
          (case first_match lower movie_title now_playing of
             Inl e \<Rightarrow> (Inl e, [])
           | Inr None \<Rightarrow>
               (Inr (dumps (JObject
                  [(''message'',
                    JString (movie_title @ '' is not currently showing in India or not found.''))])),
                [])
           | Inr (Some movie) \<Rightarrow>
               let theaters_data = get_theaters_open city;
                   theaters = theaters_of theaters_data
               in (case overview movie of
                     None \<Rightarrow> (Inl TypeError, [city])
                   | Some ov \<Rightarrow>
                       (Inr (dumps (JObject
                          [(''movie'', opt_json JString (title movie)),
                           (''release_date'', opt_json JString (release_date movie)),
                           (''overview'', JString (take 180 ov @ ''...'')),
                           (''city'', JString city),
                           (''likely_theaters'', likely_theaters theaters)])),
                        [city]))))"

section \<open>The memory after a run of questions\<close>

text \<open>
  \<open>exchanges qs as\<close> writes the list of messages that holds, for each question of
  \<open>qs\<close> in turn, the question as a \<open>HumanMessage\<close> and then the answer at the same
  place of \<open>as\<close> as an \<open>AIMessage\<close>.
\<close>

abbreviation exchanges :: "string list \<Rightarrow> string list \<Rightarrow> message list" where
  "exchanges qs as \<equiv> concat (map2 (\<lambda>q a. [HumanMessage q, AIMessage a]) qs as)"

section \<open>Concrete environments\<close>

text \<open>
  Small environments on which the statements below are evaluated. Documents and
  chunks are strings; the splitter makes one chunk of each document.
\<close>

definition src_demo :: "string sources" where
  "src_demo =
     \<lparr>path_exists = (\<lambda>p. p = ''Test_Docs''),
      directory_load = (\<lambda>p g c. if c = TextLoader then Inr [''The sky is blue.''] else Inr []),
      web_load = (\<lambda>u. if u = ''http://bad'' then Inl (External ''unreachable'') else Inr [u])\<rparr>"

definition src_unreadable :: "string sources" where
  "src_unreadable =
     \<lparr>path_exists = (\<lambda>p. True),
      directory_load = (\<lambda>p g c. Inl (External ''unreadable file'')),
      web_load = (\<lambda>u. Inr [u])\<rparr>"

definition splitter_demo :: "(string, string) splitter" where
  "splitter_demo chunk_size chunk_overlap separators docs = docs"

definition service_empty :: "string service" where
  "service_empty = \<lparr>collections = Map.empty, calls = []\<rparr>"

definition service_stale :: "string service" where
  "service_stale = \<lparr>collections = [collection_name \<mapsto> [''An old chunk.'']], calls = []\<rparr>"

text \<open>
  A retriever that finds nothing, and an LLM that answers the first question with
  \<open>Blue.\<close> and every later one with \<open>Black.\<close>; in \<open>env_failing\<close> the first call of
  the LLM fails and every later one succeeds.
\<close>

definition env_demo :: "string list chain_env" where
  "env_demo =
     \<lparr>retriever = (\<lambda>n q. Inr []),
      str_docs = (\<lambda>ds. ''['' @ py_join '', '' ds @ '']''),
      py_repr = (\<lambda>s. sq @ s @ sq),
      llm = (\<lambda>n p. if n = 0 then Inr ''Blue.'' else Inr ''Black.'')\<rparr>"

definition env_failing :: "string list chain_env" where
  "env_failing =
     \<lparr>retriever = (\<lambda>n q. Inr []),
      str_docs = (\<lambda>ds. ''['' @ py_join '', '' ds @ '']''),
      py_repr = (\<lambda>s. sq @ s @ sq),
      llm = (\<lambda>n p. if n = 0 then Inl (External ''rate limit'') else Inr ''Blue.'')\<rparr>"

text \<open>
  TMDb answers: \<open>get_demo\<close> serves a first page of two movies out of two pages and
  fails on the second page with status 500; \<open>get_down\<close> fails on every page;
  \<open>get_two\<close> serves six movies on every page of seven. Nine theaters in every city.
\<close>

definition item_demo :: "int \<Rightarrow> string \<Rightarrow> tmdb_item" where
  "item_demo i t =
     \<lparr>item_id = Some i, item_title = Some t, item_release_date = Some ''2025-10-19'',
      item_original_language = Some ''en'', item_overview = Some ''An overview.'',
      item_poster_path = Some ''/p.jpg''\<rparr>"

definition get_demo :: requests_get where
  "get_demo region page =
     (if page = 1 then
        Inr \<lparr>status_code = 200,
             json = Inr \<lparr>results = Some [item_demo 1 ''Leo'', item_demo 2 ''The Lion King''],
                         total_pages = Some 2\<rparr>\<rparr>
      else Inr \<lparr>status_code = 500, json = Inl (External ''not JSON'')\<rparr>)"

definition get_down :: requests_get where
  "get_down region page = Inr \<lparr>status_code = 503, json = Inl (External ''not JSON'')\<rparr>"

definition get_two :: requests_get where
  "get_two region page =
     Inr \<lparr>status_code = 200,
          json = Inr \<lparr>results = Some (map (\<lambda>i. item_demo i ''Leo'') [1, 2, 3, 4, 5, 6]),
                      total_pages = Some 7\<rparr>\<rparr>"

definition theater_demo :: "string \<Rightarrow> theater" where
  "theater_demo n = \<lparr>name = n, address = ''N/A'', operator = ''Unknown'', brand = None\<rparr>"

definition theaters_demo :: "string \<Rightarrow> theaters_data" where
  "theaters_demo city =
     Theaters city (map theater_demo
       [''A'', ''B'', ''C'', ''D'', ''E'', ''F'', ''G'', ''H'', ''I''])"

section \<open>Loading: the missing source and the unreadable document\<close>

text \<open>
  Claim C6. A build request with neither a valid local path nor a list of URLs fails
  in \<open>load_documents\<close> with the \<open>ValueError\<close> "Provide either a valid local path or
  URLs list." (the specification's ConfigurationError), and \<open>build_vector_store\<close>
  passes it on with the service as it was: no embedding model is loaded, no client
  connected and no collection listed, deleted or filled.
\<close>

theorem load_fails_before_any_call:
  assumes "\<not> path_valid src path" and "urls = None \<or> urls = Some []"
  shows "load_documents src path urls =
           Inl (ValueError ''Provide either a valid local path or URLs list.'') \<and>
         (\<forall>p splitter w. path = Some p \<longrightarrow>
            build_vector_store src splitter p w =
              (Inl (ValueError ''Provide either a valid local path or URLs list.''), w))"
  using assms by (auto simp: load_documents_def build_vector_store_def)

theorem load_fails_before_any_call_witness:
  "\<not> path_valid src_demo (Some ''nowhere'') \<and>
   load_documents src_demo (Some ''nowhere'') None =
     Inl (ValueError ''Provide either a valid local path or URLs list.'') \<and>
   build_vector_store src_demo splitter_demo ''nowhere'' service_empty =
     (Inl (ValueError ''Provide either a valid local path or URLs list.''), service_empty)"
proof -
  have h: "\<not> path_valid src_demo (Some ''nowhere'')"
    by (simp add: path_valid_def src_demo_def)
  from load_fails_before_any_call [OF h, of None] show ?thesis
    using h by blast
qed

lemma load_urls_raises:
  "list_all (\<lambda>v. \<exists>ds. web_load src v = Inr ds) pre \<Longrightarrow> web_load src u = Inl e \<Longrightarrow>
   load_urls src acc (pre @ u # post) = Inl e"
  by (induction pre arbitrary: acc) auto

text \<open>
  Claim C7, as amended. \<open>load_documents\<close> has no recovery for a document that cannot
  be read: an exception of either \<open>DirectoryLoader.load()\<close> call, or of the
  \<open>WebBaseLoader(url).load()\<close> of any one URL, leaves \<open>load_documents\<close> as it is
  raised. No document is returned then, also not those already loaded, and the URLs
  after the failing one are not loaded.
\<close>

theorem load_failure_aborts_batch:
  "(path_valid src path \<and>
      (directory_load src (the path) ''**/*.pdf'' PyPDFLoader = Inl e \<or>
       (\<exists>pdfs. directory_load src (the path) ''**/*.pdf'' PyPDFLoader = Inr pdfs) \<and>
         directory_load src (the path) ''**/*.txt'' TextLoader = Inl e)
      \<longrightarrow> load_documents src path urls = Inl e) \<and>
   (\<not> path_valid src path \<and> list_all (\<lambda>v. \<exists>ds. web_load src v = Inr ds) pre \<and>
      web_load src u = Inl e
      \<longrightarrow> load_documents src path (Some (pre @ u # post)) = Inl e)"
proof (intro conjI impI)
  assume "path_valid src path \<and>
      (directory_load src (the path) ''**/*.pdf'' PyPDFLoader = Inl e \<or>
       (\<exists>pdfs. directory_load src (the path) ''**/*.pdf'' PyPDFLoader = Inr pdfs) \<and>
         directory_load src (the path) ''**/*.txt'' TextLoader = Inl e)"
  then show "load_documents src path urls = Inl e"
    by (auto simp: load_documents_def load_directory_def)
next
  assume a: "\<not> path_valid src path \<and>
      list_all (\<lambda>v. \<exists>ds. web_load src v = Inr ds) pre \<and> web_load src u = Inl e"
  then have "load_urls src [] (pre @ u # post) = Inl e"
    using load_urls_raises by blast
  with a show "load_documents src path (Some (pre @ u # post)) = Inl e"
    by (cases "pre @ u # post") (auto simp: load_documents_def)
qed

theorem load_failure_aborts_batch_witness:
  "path_valid src_unreadable (Some ''Test_Docs'') \<and>
   directory_load src_unreadable ''Test_Docs'' ''**/*.pdf'' PyPDFLoader =
     Inl (External ''unreadable file'') \<and>
   load_documents src_unreadable (Some ''Test_Docs'') None =
     Inl (External ''unreadable file'') \<and>
   \<not> path_valid src_demo None \<and>
   web_load src_demo ''http://a'' = Inr [''http://a''] \<and>
   web_load src_demo ''http://bad'' = Inl (External ''unreachable'') \<and>
   load_documents src_demo None (Some [''http://a'', ''http://bad'', ''http://c'']) =
     Inl (External ''unreachable'')"
proof -
  have v: "path_valid src_unreadable (Some ''Test_Docs'')"
    by (simp add: path_valid_def src_unreadable_def)
  have d: "directory_load src_unreadable ''Test_Docs'' ''**/*.pdf'' PyPDFLoader =
             Inl (External ''unreadable file'')"
    by (simp add: src_unreadable_def)
  have n: "\<not> path_valid src_demo None"
    by (simp add: path_valid_def)
  have a: "web_load src_demo ''http://a'' = Inr [''http://a'']"
    by (simp add: src_demo_def)
  have b: "web_load src_demo ''http://bad'' = Inl (External ''unreachable'')"
    by (simp add: src_demo_def)
  have 1: "load_documents src_unreadable (Some ''Test_Docs'') None =
             Inl (External ''unreadable file'')"
    using load_failure_aborts_batch
            [of src_unreadable "Some ''Test_Docs''" "External ''unreadable file''" None]
          v d
    by simp
  have 2: "load_documents src_demo None
             (Some ([''http://a''] @ ''http://bad'' # [''http://c''])) =
             Inl (External ''unreachable'')"
    using load_failure_aborts_batch
            [of src_demo None "External ''unreachable''" _
                "[''http://a'']" "''http://bad''" "[''http://c'']"]
          n a b
    by simp
  from v d n a b 1 2 show ?thesis by simp
qed

text \<open>
  The claim as the specification has it fails on two URLs of which the first cannot
  be fetched: the second one could be loaded, and nothing is.
\<close>

theorem one_bad_url_aborts_batch:
  "web_load src_demo ''http://good'' = Inr [''http://good''] \<and>
   load_documents src_demo None (Some [''http://bad'', ''http://good'']) =
     Inl (External ''unreachable'')"
  by (simp add: load_documents_def path_valid_def src_demo_def)

section \<open>Rebuilding the vector store\<close>

lemma stored_build:
  "load_documents src (Some path) None = Inr docs \<Longrightarrow>
   stored (snd (build_vector_store src sp path w)) collection_name =
     split_documents sp docs 1000 200"
  by (simp add: build_vector_store_def Let_def from_documents_def delete_collection_def
        logged_def stored_def)

text \<open>
  Claim C2, as amended. \<open>build_vector_store\<close> of \<open>langchainRAG.py\<close> deletes the
  collection \<open>Langchain_store\<close> when the service lists it and fills it afterwards:
  whatever the collection held, it holds exactly the chunks of this build after it,
  so that a second build from the same source leaves the same chunks, each once.
  The index build of \<open>langchain(pinecone).py\<close> creates the index only when it is
  missing and never deletes it: the chunks of a build are added to what the index
  holds.
\<close>

theorem rebuild_replaces_in_chroma_and_adds_in_pinecone:
  "(load_documents src (Some path) None = Inr docs \<longrightarrow>
      fst (build_vector_store src sp path w) = Inr collection_name \<and>
      stored (snd (build_vector_store src sp path w)) collection_name =
        split_documents sp docs 1000 200 \<and>
      stored (snd (build_vector_store src sp path
                     (snd (build_vector_store src sp path w)))) collection_name =
        split_documents sp docs 1000 200 \<and>
      (collections w collection_name \<noteq> None \<longrightarrow>
         calls (snd (build_vector_store src sp path w)) =
           calls w @
           [LoadEmbeddings ''sentence-transformers/all-MiniLM-L6-v2'', ConnectClient,
            ListCollections, DeleteCollection collection_name,
            FromDocuments collection_name (length (split_documents sp docs 1000 200))])) \<and>
   (directory_load src ''docs/'' ''**/*.txt'' TextLoader = Inr docs' \<longrightarrow>
      stored (snd (pinecone_build src sp index_name w)) index_name =
        stored w index_name @ sp 500 100 [nl @ nl, nl, '' '', []] docs')"
proof (intro conjI impI)
  assume l: "load_documents src (Some path) None = Inr docs"
  show "fst (build_vector_store src sp path w) = Inr collection_name"
    using l by (simp add: build_vector_store_def Let_def)
  show "stored (snd (build_vector_store src sp path w)) collection_name =
        split_documents sp docs 1000 200"
    using l by (rule stored_build)
  show "stored (snd (build_vector_store src sp path
                     (snd (build_vector_store src sp path w)))) collection_name =
        split_documents sp docs 1000 200"
    using l by (rule stored_build)
  assume "collections w collection_name \<noteq> None"
  then show "calls (snd (build_vector_store src sp path w)) =
           calls w @
           [LoadEmbeddings ''sentence-transformers/all-MiniLM-L6-v2'', ConnectClient,
            ListCollections, DeleteCollection collection_name,
            FromDocuments collection_name (length (split_documents sp docs 1000 200))]"
    using l by (simp add: build_vector_store_def Let_def from_documents_def
        delete_collection_def logged_def)
next
  assume "directory_load src ''docs/'' ''**/*.txt'' TextLoader = Inr docs'"
  then show "stored (snd (pinecone_build src sp index_name w)) index_name =
        stored w index_name @ sp 500 100 [nl @ nl, nl, '' '', []] docs'"
    by (simp add: pinecone_build_def Let_def from_documents_def create_index_def
        logged_def stored_def)
qed

theorem rebuild_replaces_in_chroma_and_adds_in_pinecone_witness:
  "load_documents src_demo (Some ''Test_Docs'') None = Inr [''The sky is blue.''] \<and>
   collections service_stale collection_name \<noteq> None \<and>
   stored service_stale collection_name = [''An old chunk.''] \<and>
   stored (snd (build_vector_store src_demo splitter_demo ''Test_Docs'' service_stale))
     collection_name = [''The sky is blue.''] \<and>
   stored (snd (build_vector_store src_demo splitter_demo ''Test_Docs''
                  (snd (build_vector_store src_demo splitter_demo ''Test_Docs'' service_stale))))
     collection_name = [''The sky is blue.''] \<and>
   calls (snd (build_vector_store src_demo splitter_demo ''Test_Docs'' service_stale)) =
     [LoadEmbeddings ''sentence-transformers/all-MiniLM-L6-v2'', ConnectClient,
      ListCollections, DeleteCollection collection_name, FromDocuments collection_name 1] \<and>
   directory_load src_demo ''docs/'' ''**/*.txt'' TextLoader = Inr [''The sky is blue.''] \<and>
   stored (snd (pinecone_build src_demo splitter_demo collection_name service_stale))
     collection_name = [''An old chunk.'', ''The sky is blue.'']"
proof -
  have l: "load_documents src_demo (Some ''Test_Docs'') None = Inr [''The sky is blue.'']"
    by (simp add: load_documents_def load_directory_def path_valid_def src_demo_def)
  have c: "collections service_stale collection_name \<noteq> None"
    by (simp add: service_stale_def)
  have s: "stored service_stale collection_name = [''An old chunk.'']"
    by (simp add: service_stale_def stored_def)
  have d: "directory_load src_demo ''docs/'' ''**/*.txt'' TextLoader =
             Inr [''The sky is blue.'']"
    by (simp add: src_demo_def)
  have k: "calls service_stale = []"
    by (simp add: service_stale_def)
  have p: "split_documents splitter_demo [''The sky is blue.''] 1000 200 =
             [''The sky is blue.'']"
    by (simp add: split_documents_def splitter_demo_def)
  have q: "splitter_demo 500 100 [nl @ nl, nl, '' '', []] [''The sky is blue.''] =
             [''The sky is blue.'']"
    by (simp add: splitter_demo_def)
  note t = rebuild_replaces_in_chroma_and_adds_in_pinecone
             [where src = src_demo and path = "''Test_Docs''"
                and docs = "[''The sky is blue.'']" and sp = splitter_demo
                and w = service_stale and docs' = "[''The sky is blue.'']"
                and index_name = collection_name]
  from t l c s d k p q show ?thesis by simp
qed

text \<open>
  The claim as the specification has it, for every build, fails on the Pinecone
  script: run twice on one document, it leaves the document's chunk in the index
  twice.
\<close>

theorem pinecone_rebuild_duplicates:
  "stored (snd (pinecone_build src_demo splitter_demo ''idx'' service_empty)) ''idx'' =
     [''The sky is blue.''] \<and>
   stored (snd (pinecone_build src_demo splitter_demo ''idx''
                  (snd (pinecone_build src_demo splitter_demo ''idx'' service_empty)))) ''idx'' =
     [''The sky is blue.'', ''The sky is blue.'']"
  by (simp add: pinecone_build_def Let_def from_documents_def create_index_def
        logged_def stored_def src_demo_def splitter_demo_def service_empty_def)

section \<open>The session: prompt, failure and memory\<close>

lemma is_exit_examples:
  "is_exit ''exit''"
  "\<not> is_exit ''What color is the sky?''"
  "\<not> is_exit ''And at night?''"
  by (simp_all add: is_exit_def ascii_lower_def ascii_lower_char_def)

text \<open>
  The history is rendered for the prompt and handed to the template, which has no
  placeholder for it: the prompt is the same whatever the history holds.
\<close>

lemma prompt_ignores_history:
  "rag_prompt env n history query = rag_prompt env n [] query"
  by (simp add: rag_prompt_def chain_inputs_def prompt_format_def split: sum.splits)

text \<open>
  Claim C1 says that the prompt of the second question holds the first question and
  its answer. In the session below the first question is answered with \<open>Blue.\<close> and
  both are appended to the history; the prompt assembled for the second question is
  the template filled with the context and the question only, and neither the first
  question nor its answer occurs in it.
\<close>

theorem second_prompt_omits_memory:
  "main_loop env_demo 0 [] [''What color is the sky?''] =
     Raised EOFError [HumanMessage ''What color is the sky?'', AIMessage ''Blue.''] \<and>
   rag_prompt env_demo 1 [HumanMessage ''What color is the sky?'', AIMessage ''Blue.'']
       ''And at night?'' =
     Inr (prompt_format
            \<lparr>v_context = ''[]'',
             v_question =
               ''{'' @ sq @ ''question'' @ sq @ '': '' @ sq @ ''And at night?'' @ sq @ ''}'',
             v_chat_history = ''Human: What color is the sky?'' @ nl @ ''AI: Blue.''\<rparr>) \<and>
   \<not> py_in ''What color is the sky?''
       (prompt_format
            \<lparr>v_context = ''[]'',
             v_question =
               ''{'' @ sq @ ''question'' @ sq @ '': '' @ sq @ ''And at night?'' @ sq @ ''}'',
             v_chat_history = ''Human: What color is the sky?'' @ nl @ ''AI: Blue.''\<rparr>) \<and>
   \<not> py_in ''Blue.''
       (prompt_format
            \<lparr>v_context = ''[]'',
             v_question =
               ''{'' @ sq @ ''question'' @ sq @ '': '' @ sq @ ''And at night?'' @ sq @ ''}'',
             v_chat_history = ''Human: What color is the sky?'' @ nl @ ''AI: Blue.''\<rparr>)"
proof (intro conjI)
  show "main_loop env_demo 0 [] [''What color is the sky?''] =
     Raised EOFError [HumanMessage ''What color is the sky?'', AIMessage ''Blue.'']"
    by (simp add: is_exit_examples rag_chain_invoke_def rag_prompt_def chain_inputs_def
          env_demo_def)
  show "rag_prompt env_demo 1 [HumanMessage ''What color is the sky?'', AIMessage ''Blue.'']
       ''And at night?'' =
     Inr (prompt_format
            \<lparr>v_context = ''[]'',
             v_question =
               ''{'' @ sq @ ''question'' @ sq @ '': '' @ sq @ ''And at night?'' @ sq @ ''}'',
             v_chat_history = ''Human: What color is the sky?'' @ nl @ ''AI: Blue.''\<rparr>)"
    by (simp add: rag_prompt_def chain_inputs_def env_demo_def render_message_def)
  show "\<not> py_in ''What color is the sky?''
       (prompt_format
            \<lparr>v_context = ''[]'',
             v_question =
               ''{'' @ sq @ ''question'' @ sq @ '': '' @ sq @ ''And at night?'' @ sq @ ''}'',
             v_chat_history = ''Human: What color is the sky?'' @ nl @ ''AI: Blue.''\<rparr>)"
    by (simp add: prompt_format_def nl_def dq_def sq_def)
  show "\<not> py_in ''Blue.''
       (prompt_format
            \<lparr>v_context = ''[]'',
             v_question =
               ''{'' @ sq @ ''question'' @ sq @ '': '' @ sq @ ''And at night?'' @ sq @ ''}'',
             v_chat_history = ''Human: What color is the sky?'' @ nl @ ''AI: Blue.''\<rparr>)"
    by (simp add: prompt_format_def nl_def dq_def sq_def)
qed

text \<open>
  Claim C3, as amended. When the chain raises on a question (the retriever or the
  LLM fails), nothing is appended to the history, and the exception leaves the loop:
  the session ends with that exception and the history as it was, and the lines
  after the question are not read.
\<close>

theorem failed_generation_ends_session:
  "\<not> is_exit query \<Longrightarrow> rag_chain_invoke env n history query = Inl e \<Longrightarrow>
   main_loop env n history (query # rest) = Raised e history"
  by simp

theorem failed_generation_ends_session_witness:
  "\<not> is_exit ''What color is the sky?'' \<and>
   rag_chain_invoke env_failing 0 [] ''What color is the sky?'' =
     Inl (External ''rate limit'') \<and>
   main_loop env_failing 0 [] [''What color is the sky?'', ''And at night?''] =
     Raised (External ''rate limit'') []"
proof -
  have a: "\<not> is_exit ''What color is the sky?''"
    by (rule is_exit_examples)
  have b: "rag_chain_invoke env_failing 0 [] ''What color is the sky?'' =
             Inl (External ''rate limit'')"
    by (simp add: rag_chain_invoke_def rag_prompt_def chain_inputs_def env_failing_def)
  from failed_generation_ends_session [OF a b] a b show ?thesis by simp
qed

text \<open>
  The claim as the specification has it fails where the first generation fails: the
  second question, which the chain would answer, is never asked of it, and the
  session does not reach its \<open>exit\<close>.
\<close>

theorem failed_generation_session_not_usable:
  "main_loop env_failing 0 [] [''What color is the sky?'', ''And at night?'', ''exit''] =
     Raised (External ''rate limit'') [] \<and>
   rag_chain_invoke env_failing 1 [] ''And at night?'' = Inr ''Blue.''"
  by (simp add: is_exit_examples rag_chain_invoke_def rag_prompt_def chain_inputs_def
        env_failing_def)

lemma exchanges_length:
  "length qs = length as \<Longrightarrow> length (exchanges qs as) = 2 * length qs"
  by (induction qs as rule: list_induct2) auto

lemma exchanges_nth:
  "length qs = length as \<Longrightarrow> i < length qs \<Longrightarrow>
   exchanges qs as ! (2 * i) = HumanMessage (qs ! i) \<and>
   exchanges qs as ! (2 * i + 1) = AIMessage (as ! i)"
proof (induction qs as arbitrary: i rule: list_induct2)
  case Nil
  then show ?case by simp
next
  case (Cons q qs a as)
  then show ?case by (cases i) auto
qed

lemma main_loop_exchanges:
  "length qs = length as \<Longrightarrow>
   \<forall>i<length qs. \<not> is_exit (qs ! i) \<and>
      rag_chain_invoke env (n + i) (h0 @ take (2 * i) (exchanges qs as)) (qs ! i) =
        Inr (as ! i) \<Longrightarrow>
   main_loop env n h0 (qs @ rest) =
     main_loop env (n + length qs) (h0 @ exchanges qs as) rest"
proof (induction qs as arbitrary: n h0 rule: list_induct2)
  case Nil
  then show ?case by simp
next
  case (Cons q qs a as)
  from Cons.prems have first: "\<not> is_exit q \<and> rag_chain_invoke env n h0 q = Inr a"
    by fastforce
  have later: "\<forall>i<length qs. \<not> is_exit (qs ! i) \<and>
      rag_chain_invoke env (Suc n + i)
        ((h0 @ [HumanMessage q, AIMessage a]) @ take (2 * i) (exchanges qs as)) (qs ! i) =
        Inr (as ! i)"
  proof (intro allI impI)
    fix i
    assume "i < length qs"
    then have "Suc i < length (q # qs)" by simp
    with Cons.prems have
      "\<not> is_exit ((q # qs) ! Suc i) \<and>
       rag_chain_invoke env (n + Suc i)
         (h0 @ take (2 * Suc i) (exchanges (q # qs) (a # as))) ((q # qs) ! Suc i) =
         Inr ((a # as) ! Suc i)"
      by blast
    then show "\<not> is_exit (qs ! i) \<and>
      rag_chain_invoke env (Suc n + i)
        ((h0 @ [HumanMessage q, AIMessage a]) @ take (2 * i) (exchanges qs as)) (qs ! i) =
        Inr (as ! i)"
      by simp
  qed
  from Cons.IH [OF later] first show ?case by simp
qed

text \<open>
  Claim C4. Let a session start with an empty history, and let each of its first N
  lines be a question (not \<open>exit\<close> or \<open>quit\<close>) that the chain, called in turn i on
  the memory of the i exchanges before it, answers. Then the memory of the loop
  after these N queries is the list of exactly 2N messages that alternates the
  questions, as \<open>HumanMessage\<close>, with their answers, as \<open>AIMessage\<close>, in the order
  they were asked: message 2i is the i-th question and message 2i+1 its answer. It
  is the memory with which the loop reads the next line, the one a session that
  ends there stops with, and the one a following \<open>exit\<close> leaves.
\<close>

theorem memory_after_n_queries:
  assumes "length as = length qs"
    and "\<forall>i<length qs. \<not> is_exit (qs ! i) \<and>
           rag_chain_invoke env i (take (2 * i) (exchanges qs as)) (qs ! i) = Inr (as ! i)"
  shows "main_loop env 0 [] qs = Raised EOFError (exchanges qs as) \<and>
         (\<forall>rest. main_loop env 0 [] (qs @ ''exit'' # rest) = Exited (exchanges qs as)) \<and>
         (\<forall>rest. main_loop env 0 [] (qs @ rest) =
                   main_loop env (length qs) (exchanges qs as) rest) \<and>
         length (exchanges qs as) = 2 * length qs \<and>
         (\<forall>i<length qs. exchanges qs as ! (2 * i) = HumanMessage (qs ! i) \<and>
                          exchanges qs as ! (2 * i + 1) = AIMessage (as ! i))"
proof -
  have len: "length qs = length as"
    using assms(1) by simp
  have run: "main_loop env 0 [] (qs @ rest) =
               main_loop env (length qs) (exchanges qs as) rest" for rest
    using main_loop_exchanges [OF len, of env 0 "[]" rest] assms(2) by simp
  have "main_loop env 0 [] qs = Raised EOFError (exchanges qs as)"
    using run [of "[]"] by simp
  moreover have "\<forall>rest. main_loop env 0 [] (qs @ ''exit'' # rest) = Exited (exchanges qs as)"
    using run is_exit_examples(1) by simp
  moreover have "length (exchanges qs as) = 2 * length qs"
    using len by (rule exchanges_length)
  moreover have "\<forall>i<length qs. exchanges qs as ! (2 * i) = HumanMessage (qs ! i) \<and>
                          exchanges qs as ! (2 * i + 1) = AIMessage (as ! i)"
    using len exchanges_nth by blast
  ultimately show ?thesis using run by blast
qed

theorem memory_after_n_queries_witness:
  "length [''Blue.'', ''Black.''] = length [''What color is the sky?'', ''And at night?''] \<and>
   \<not> is_exit ''What color is the sky?'' \<and>
   rag_chain_invoke env_demo 0 [] ''What color is the sky?'' = Inr ''Blue.'' \<and>
   \<not> is_exit ''And at night?'' \<and>
   rag_chain_invoke env_demo 1
     [HumanMessage ''What color is the sky?'', AIMessage ''Blue.''] ''And at night?'' =
     Inr ''Black.'' \<and>
   main_loop env_demo 0 [] [''What color is the sky?'', ''And at night?''] =
     Raised EOFError
       [HumanMessage ''What color is the sky?'', AIMessage ''Blue.'',
        HumanMessage ''And at night?'', AIMessage ''Black.''] \<and>
   main_loop env_demo 0 [] [''What color is the sky?'', ''And at night?'', ''exit''] =
     Exited
       [HumanMessage ''What color is the sky?'', AIMessage ''Blue.'',
        HumanMessage ''And at night?'', AIMessage ''Black.'']"
proof -
  let ?qs = "[''What color is the sky?'', ''And at night?'']"
  let ?as = "[''Blue.'', ''Black.'']"
  have c0: "rag_chain_invoke env_demo 0 [] ''What color is the sky?'' = Inr ''Blue.''"
    by (simp add: rag_chain_invoke_def rag_prompt_def chain_inputs_def env_demo_def)
  have c1: "rag_chain_invoke env_demo 1
     [HumanMessage ''What color is the sky?'', AIMessage ''Blue.''] ''And at night?'' =
     Inr ''Black.''"
    by (simp add: rag_chain_invoke_def rag_prompt_def chain_inputs_def env_demo_def)
  have l: "length ?as = length ?qs" by simp
  have h: "\<forall>i<length ?qs. \<not> is_exit (?qs ! i) \<and>
           rag_chain_invoke env_demo i (take (2 * i) (exchanges ?qs ?as)) (?qs ! i) =
             Inr (?as ! i)"
    using c0 c1 is_exit_examples by (simp add: All_less_Suc)
  note t = memory_after_n_queries [OF l h]
  from t have r: "main_loop env_demo 0 [] ?qs = Raised EOFError (exchanges ?qs ?as)"
    by blast
  from t have "\<forall>rest. main_loop env_demo 0 [] (?qs @ ''exit'' # rest) =
                 Exited (exchanges ?qs ?as)"
    by blast
  then have "main_loop env_demo 0 [] (?qs @ ''exit'' # []) = Exited (exchanges ?qs ?as)"
    by blast
  then have e: "main_loop env_demo 0 [] [''What color is the sky?'', ''And at night?'', ''exit''] =
                 Exited (exchanges ?qs ?as)"
    by simp
  have x: "exchanges ?qs ?as =
       [HumanMessage ''What color is the sky?'', AIMessage ''Blue.'',
        HumanMessage ''And at night?'', AIMessage ''Black.'']"
    by simp
  from l c0 c1 is_exit_examples r e show ?thesis unfolding x by blast
qed

section \<open>The now-playing tool\<close>

lemma fetch_pages_cong:
  "list_all (\<lambda>p. get' region p = get region p) pages \<Longrightarrow>
   fetch_pages get' region acc pages = fetch_pages get region acc pages"
  by (induction pages arbitrary: acc) (auto split: sum.splits simp: Let_def)

lemma fetch_pages_returns:
  "list_all (\<lambda>p. \<exists>r. get region p = Inr r \<and>
      (status_code r \<noteq> 200 \<or> (\<exists>d. json r = Inr d))) pages \<Longrightarrow>
   \<exists>ms. fetch_pages get region acc pages = Inr ms"
  by (induction pages arbitrary: acc) (auto split: sum.splits simp: Let_def)

text \<open>
  Claim C9. Provided the requests for the pages are answered (no request raises, and
  a body with status 200 decodes), \<open>get_now_playing\<close> returns the serialised array of
  the first ten movies of the fetch, at most ten. The fetch reads the pages 1 and 2
  and no other. A status other than 200 ends it with the movies gathered so far and
  without an error: none if it is the first page, those of the first page if it is
  the second.
\<close>

theorem get_now_playing_at_most_ten:
  "((\<forall>page\<in>{1, 2}. \<exists>r. get region page = Inr r \<and>
        (status_code r \<noteq> 200 \<or> (\<exists>d. json r = Inr d))) \<longrightarrow>
      (\<exists>ms. get_now_playing_tmdb get region = Inr ms \<and>
            get_now_playing dumps get region =
              Inr (dumps (JArray (map movie_json (take 10 ms)))) \<and>
            length (take 10 ms) \<le> 10)) \<and>
   (get' region 1 = get region 1 \<and> get' region 2 = get region 2 \<longrightarrow>
      get_now_playing_tmdb get' region = get_now_playing_tmdb get region) \<and>
   (get region 1 = Inr r1 \<and> status_code r1 \<noteq> 200 \<longrightarrow>
      get_now_playing_tmdb get region = Inr []) \<and>
   (get region 1 = Inr r1 \<and> status_code r1 = 200 \<and> json r1 = Inr d1 \<and>
    1 < (case total_pages d1 of None \<Rightarrow> 1 | Some t \<Rightarrow> t) \<and>
    get region 2 = Inr r2 \<and> status_code r2 \<noteq> 200 \<longrightarrow>
      get_now_playing_tmdb get region =
        Inr (map movie_of (case results d1 of None \<Rightarrow> [] | Some ms \<Rightarrow> ms)))"
proof (intro conjI impI)
  assume "\<forall>page\<in>{1, 2}. \<exists>r. get region page = Inr r \<and>
        (status_code r \<noteq> 200 \<or> (\<exists>d. json r = Inr d))"
  then have "list_all (\<lambda>p. \<exists>r. get region p = Inr r \<and>
        (status_code r \<noteq> 200 \<or> (\<exists>d. json r = Inr d))) [1, 2]"
    by simp
  then obtain ms where "fetch_pages get region [] [1, 2] = Inr ms"
    using fetch_pages_returns by blast
  then show "\<exists>ms. get_now_playing_tmdb get region = Inr ms \<and>
            get_now_playing dumps get region =
              Inr (dumps (JArray (map movie_json (take 10 ms)))) \<and>
            length (take 10 ms) \<le> 10"
    by (simp add: get_now_playing_def get_now_playing_tmdb_def)
next
  assume "get' region 1 = get region 1 \<and> get' region 2 = get region 2"
  then have "list_all (\<lambda>p. get' region p = get region p) [1, 2]" by simp
  then show "get_now_playing_tmdb get' region = get_now_playing_tmdb get region"
    unfolding get_now_playing_tmdb_def by (rule fetch_pages_cong)
next
  assume "get region 1 = Inr r1 \<and> status_code r1 \<noteq> 200"
  then show "get_now_playing_tmdb get region = Inr []"
    by (simp add: get_now_playing_tmdb_def)
next
  assume "get region 1 = Inr r1 \<and> status_code r1 = 200 \<and> json r1 = Inr d1 \<and>
    1 < (case total_pages d1 of None \<Rightarrow> 1 | Some t \<Rightarrow> t) \<and>
    get region 2 = Inr r2 \<and> status_code r2 \<noteq> 200"
  then show "get_now_playing_tmdb get region =
        Inr (map movie_of (case results d1 of None \<Rightarrow> [] | Some ms \<Rightarrow> ms))"
    by (simp add: get_now_playing_tmdb_def Let_def)
qed

theorem get_now_playing_at_most_ten_witness:
  "(\<forall>dumps. get_now_playing dumps get_two ''IN'' =
      Inr (dumps (JArray (map movie_json
        (map (\<lambda>i. movie_of (item_demo i ''Leo'')) [1, 2, 3, 4, 5, 6, 1, 2, 3, 4]))))) \<and>
   get_now_playing_tmdb get_two ''IN'' =
     Inr (map (\<lambda>i. movie_of (item_demo i ''Leo'')) [1, 2, 3, 4, 5, 6, 1, 2, 3, 4, 5, 6]) \<and>
   get_now_playing_tmdb (\<lambda>region page. if page \<le> 2 then get_two region page
                                        else Inl (External ''timeout'')) ''IN'' =
     get_now_playing_tmdb get_two ''IN'' \<and>
   get_now_playing_tmdb get_down ''IN'' = Inr [] \<and>
   get_now_playing_tmdb get_demo ''IN'' =
     Inr [movie_of (item_demo 1 ''Leo''), movie_of (item_demo 2 ''The Lion King'')]"
proof -
  have two: "get_now_playing_tmdb get_two ''IN'' =
     Inr (map (\<lambda>i. movie_of (item_demo i ''Leo'')) [1, 2, 3, 4, 5, 6, 1, 2, 3, 4, 5, 6])"
    by (simp add: get_now_playing_tmdb_def get_two_def Let_def)
  have h1: "\<forall>page\<in>{1, 2}. \<exists>r. get_two ''IN'' page = Inr r \<and>
        (status_code r \<noteq> 200 \<or> (\<exists>d. json r = Inr d))"
    by (simp add: get_two_def)
  have a: "\<forall>dumps. get_now_playing dumps get_two ''IN'' =
      Inr (dumps (JArray (map movie_json
        (map (\<lambda>i. movie_of (item_demo i ''Leo'')) [1, 2, 3, 4, 5, 6, 1, 2, 3, 4]))))"
  proof
    fix dumps
    from get_now_playing_at_most_ten [of get_two "''IN''" dumps] h1
    obtain ms where "get_now_playing_tmdb get_two ''IN'' = Inr ms"
      and "get_now_playing dumps get_two ''IN'' =
              Inr (dumps (JArray (map movie_json (take 10 ms))))"
      by blast
    with two show "get_now_playing dumps get_two ''IN'' =
      Inr (dumps (JArray (map movie_json
        (map (\<lambda>i. movie_of (item_demo i ''Leo'')) [1, 2, 3, 4, 5, 6, 1, 2, 3, 4]))))"
      by simp
  qed
  have b: "get_now_playing_tmdb (\<lambda>region page. if page \<le> 2 then get_two region page
                                        else Inl (External ''timeout'')) ''IN'' =
     get_now_playing_tmdb get_two ''IN''"
    using get_now_playing_at_most_ten
            [where get = get_two and region = "''IN''"
               and get' = "\<lambda>region page. if page \<le> 2 then get_two region page
                                        else Inl (External ''timeout'')"]
    by simp
  have c: "get_now_playing_tmdb get_down ''IN'' = Inr []"
    using get_now_playing_at_most_ten
            [where get = get_down and region = "''IN''"
               and ?r1.0 = "\<lparr>status_code = 503, json = Inl (External ''not JSON'')\<rparr>"]
    by (simp add: get_down_def)
  have d: "get_now_playing_tmdb get_demo ''IN'' =
     Inr [movie_of (item_demo 1 ''Leo''), movie_of (item_demo 2 ''The Lion King'')]"
    using get_now_playing_at_most_ten
            [where get = get_demo and region = "''IN''"
               and ?r1.0 = "\<lparr>status_code = 200,
                     json = Inr \<lparr>results = Some [item_demo 1 ''Leo'', item_demo 2 ''The Lion King''],
                         total_pages = Some 2\<rparr>\<rparr>"
               and ?d1.0 = "\<lparr>results = Some [item_demo 1 ''Leo'', item_demo 2 ''The Lion King''],
                         total_pages = Some 2\<rparr>"
               and ?r2.0 = "\<lparr>status_code = 500, json = Inl (External ''not JSON'')\<rparr>"]
    by (simp add: get_demo_def)
  from a two b c d show ?thesis by blast
qed

section \<open>Finding a movie in a city\<close>

text \<open>\<open>py_in\<close> is substring containment.\<close>

lemma py_in_iff: "py_in s t \<longleftrightarrow> (\<exists>ps ss. t = ps @ s @ ss)"
proof (induction t)
  case Nil
  then show ?case by auto
next
  case (Cons c cs)
  show ?case
  proof
    assume "py_in s (c # cs)"
    then consider "prefix s (c # cs)" | "py_in s cs" by auto
    then show "\<exists>ps ss. c # cs = ps @ s @ ss"
    proof cases
      case 1
      then obtain ss where "c # cs = s @ ss" by (auto simp: prefix_def)
      then have "c # cs = [] @ s @ ss" by simp
      then show ?thesis by blast
    next
      case 2
      with Cons obtain ps ss where "cs = ps @ s @ ss" by blast
      then have "c # cs = (c # ps) @ s @ ss" by simp
      then show ?thesis by blast
    qed
  next
    assume "\<exists>ps ss. c # cs = ps @ s @ ss"
    then obtain ps ss where e: "c # cs = ps @ s @ ss" by blast
    show "py_in s (c # cs)"
    proof (cases ps)
      case Nil
      with e have "prefix s (c # cs)" by (simp add: prefix_def)
      then show ?thesis by simp
    next
      case (Cons p ps')
      with e have "cs = ps' @ s @ ss" by simp
      with Cons.IH have "py_in s cs" by blast
      then show ?thesis by simp
    qed
  qed
qed

lemma first_match_find:
  "list_all (\<lambda>m. title m \<noteq> None) ms \<Longrightarrow>
   first_match lower t ms =
     Inr (find (\<lambda>m. py_in (lower t) (lower (the (title m)))) ms)"
  by (induction ms) auto

lemma likely_theaters_cases:
  "ts = [] \<and> likely_theaters ts = JString ''No data found'' \<or>
   likely_theaters ts = JArray (map (\<lambda>t. JString (name t)) (take 8 ts)) \<and>
     length (take 8 ts) \<le> 8"
  by (simp add: likely_theaters_def)

text \<open>
  Claim C10. Whatever \<open>str.lower()\<close> does to a text (\<open>lower\<close>), and where every
  now-playing movie has a title, \<open>find_movie_in_city\<close> takes the first movie of the
  list whose lower-cased title contains the lower-cased query as a substring. If
  there is none, it returns the not-found message and looks no theater up. If there
  is one (and it has an overview), it looks the theaters of the city up once and
  returns the movie with \<open>likely_theaters\<close>, which is the list of the names of the
  first eight theaters at most, or the text "No data found" when there is no
  theater.
\<close>

theorem find_movie_in_city_first_match:
  assumes "get_now_playing_tmdb get ''IN'' = Inr ms"
    and "list_all (\<lambda>m. title m \<noteq> None) ms"
  shows "first_match lower t ms =
           Inr (find (\<lambda>m. py_in (lower t) (lower (the (title m)))) ms) \<and>
         (\<forall>a b. py_in a b = (\<exists>ps ss. b = ps @ a @ ss)) \<and>
         (first_match lower t ms = Inr None \<longrightarrow>
            find_movie_in_city dumps lower get get_theaters_open t city =
              (Inr (dumps (JObject
                 [(''message'',
                   JString (t @ '' is not currently showing in India or not found.''))])),
               [])) \<and>
         (\<forall>m ov. first_match lower t ms = Inr (Some m) \<and> overview m = Some ov \<longrightarrow>
            find_movie_in_city dumps lower get get_theaters_open t city =
              (Inr (dumps (JObject
                 [(''movie'', opt_json JString (title m)),
                  (''release_date'', opt_json JString (release_date m)),
                  (''overview'', JString (take 180 ov @ ''...'')),
                  (''city'', JString city),
                  (''likely_theaters'',
                   likely_theaters (theaters_of (get_theaters_open city)))])),
               [city])) \<and>
         (\<forall>ts. ts = [] \<and> likely_theaters ts = JString ''No data found'' \<or>
               likely_theaters ts = JArray (map (\<lambda>t. JString (name t)) (take 8 ts)) \<and>
               length (take 8 ts) \<le> 8)"
  using assms first_match_find [OF assms(2)] py_in_iff likely_theaters_cases
  by (auto simp: find_movie_in_city_def Let_def)

text \<open>
  The witness lower-cases with \<open>ascii_lower\<close>, which is \<open>str.lower()\<close> on the texts
  of the example.
\<close>

lemma lower_examples:
  "is_exit ''QuIt''"
  "ascii_lower ''LION'' = ''lion''"
  "ascii_lower ''Dune'' = ''dune''"
  "ascii_lower ''Leo'' = ''leo''"
  "ascii_lower ''The Lion King'' = ''the lion king''"
  by (simp_all add: ascii_lower_def ascii_lower_char_def is_exit_def)

theorem find_movie_in_city_first_match_witness:
  "get_now_playing_tmdb get_demo ''IN'' =
     Inr [movie_of (item_demo 1 ''Leo''), movie_of (item_demo 2 ''The Lion King'')] \<and>
   first_match ascii_lower ''LION''
       [movie_of (item_demo 1 ''Leo''), movie_of (item_demo 2 ''The Lion King'')] =
     Inr (Some (movie_of (item_demo 2 ''The Lion King''))) \<and>
   (\<forall>dumps. find_movie_in_city dumps ascii_lower get_demo theaters_demo ''LION'' ''Pune'' =
      (Inr (dumps (JObject
         [(''movie'', JString ''The Lion King''),
          (''release_date'', JString ''2025-10-19''),
          (''overview'', JString ''An overview....''),
          (''city'', JString ''Pune''),
          (''likely_theaters'',
           JArray (map JString [''A'', ''B'', ''C'', ''D'', ''E'', ''F'', ''G'', ''H'']))])),
       [''Pune''])) \<and>
   first_match ascii_lower ''Dune''
       [movie_of (item_demo 1 ''Leo''), movie_of (item_demo 2 ''The Lion King'')] =
     Inr None \<and>
   (\<forall>dumps. find_movie_in_city dumps ascii_lower get_demo theaters_demo ''Dune'' ''Pune'' =
      (Inr (dumps (JObject
         [(''message'',
           JString ''Dune is not currently showing in India or not found.'')])),
       []))"
proof -
  let ?ms = "[movie_of (item_demo 1 ''Leo''), movie_of (item_demo 2 ''The Lion King'')]"
  have g: "get_now_playing_tmdb get_demo ''IN'' = Inr ?ms"
    by (simp add: get_now_playing_tmdb_def get_demo_def Let_def)
  have t: "list_all (\<lambda>m. title m \<noteq> None) ?ms"
    by (simp add: movie_of_def item_demo_def)
  have f1: "first_match ascii_lower ''LION'' ?ms =
              Inr (Some (movie_of (item_demo 2 ''The Lion King'')))"
    by (simp add: movie_of_def item_demo_def lower_examples)
  have f2: "first_match ascii_lower ''Dune'' ?ms = Inr None"
    by (simp add: movie_of_def item_demo_def lower_examples)
  have ov: "overview (movie_of (item_demo 2 ''The Lion King'')) = Some ''An overview.''"
    by (simp add: movie_of_def item_demo_def)
  have a: "\<forall>dumps.
      find_movie_in_city dumps ascii_lower get_demo theaters_demo ''LION'' ''Pune'' =
      (Inr (dumps (JObject
         [(''movie'', JString ''The Lion King''),
          (''release_date'', JString ''2025-10-19''),
          (''overview'', JString ''An overview....''),
          (''city'', JString ''Pune''),
          (''likely_theaters'',
           JArray (map JString [''A'', ''B'', ''C'', ''D'', ''E'', ''F'', ''G'', ''H'']))])),
       [''Pune''])"
  proof
    fix dumps
    from find_movie_in_city_first_match
           [OF g t, of ascii_lower "''LION''" dumps theaters_demo "''Pune''"]
    have "\<forall>m ov. first_match ascii_lower ''LION'' ?ms = Inr (Some m) \<and>
                   overview m = Some ov \<longrightarrow>
            find_movie_in_city dumps ascii_lower get_demo theaters_demo ''LION'' ''Pune'' =
              (Inr (dumps (JObject
                 [(''movie'', opt_json JString (title m)),
                  (''release_date'', opt_json JString (release_date m)),
                  (''overview'', JString (take 180 ov @ ''...'')),
                  (''city'', JString ''Pune''),
                  (''likely_theaters'',
                   likely_theaters (theaters_of (theaters_demo ''Pune'')))])),
               [''Pune''])"
      by blast
    with f1 ov have
      "find_movie_in_city dumps ascii_lower get_demo theaters_demo ''LION'' ''Pune'' =
              (Inr (dumps (JObject
                 [(''movie'',
                   opt_json JString (title (movie_of (item_demo 2 ''The Lion King'')))),
                  (''release_date'',
                   opt_json JString (release_date (movie_of (item_demo 2 ''The Lion King'')))),
                  (''overview'', JString (take 180 ''An overview.'' @ ''...'')),
                  (''city'', JString ''Pune''),
                  (''likely_theaters'',
                   likely_theaters (theaters_of (theaters_demo ''Pune'')))])),
               [''Pune''])"
      by blast
    then show
      "find_movie_in_city dumps ascii_lower get_demo theaters_demo ''LION'' ''Pune'' =
      (Inr (dumps (JObject
         [(''movie'', JString ''The Lion King''),
          (''release_date'', JString ''2025-10-19''),
          (''overview'', JString ''An overview....''),
          (''city'', JString ''Pune''),
          (''likely_theaters'',
           JArray (map JString [''A'', ''B'', ''C'', ''D'', ''E'', ''F'', ''G'', ''H'']))])),
       [''Pune''])"
      by (simp add: movie_of_def item_demo_def opt_json_def likely_theaters_def
            theaters_of_def theaters_demo_def theater_demo_def)
  qed
  have b: "\<forall>dumps.
      find_movie_in_city dumps ascii_lower get_demo theaters_demo ''Dune'' ''Pune'' =
      (Inr (dumps (JObject
         [(''message'',
           JString ''Dune is not currently showing in India or not found.'')])),
       [])"
  proof
    fix dumps
    from find_movie_in_city_first_match
           [OF g t, of ascii_lower "''Dune''" dumps theaters_demo "''Pune''"] f2
    show "find_movie_in_city dumps ascii_lower get_demo theaters_demo ''Dune'' ''Pune'' =
      (Inr (dumps (JObject
         [(''message'',
           JString ''Dune is not currently showing in India or not found.'')])),
       [])"
      by simp
  qed
  from g f1 a f2 b show ?thesis by blast
qed

end
